theory Spec2Isabelle
  imports Complex_Main
begin

section \<open>JavaScript values used by the components\<close>

text \<open>
  The components are TypeScript classes running on JavaScript strings and numbers.
  A JavaScript number is modelled by its exact value: a finite number is a rational,
  and the three special values the operations of the code can produce (NaN and the two
  infinities, through \<open>Number\<close> of a string that is no numeral and through division by
  zero) are constructors of their own. The rounding of IEEE-754 binary64 arithmetic and
  the sign of zero are not part of this model; section \<open>binary64\<close> below evaluates the one
  expression whose claim names concrete decimal inputs with the rounding written out.
  A string is a list of bytes, the UTF-8 encoding of the JavaScript string.
\<close>

datatype number = NaN | PosInf | NegInf | Num rat

fun js_neg :: "number \<Rightarrow> number" where
  "js_neg (Num a) = Num (- a)"
| "js_neg PosInf = NegInf"
| "js_neg NegInf = PosInf"
| "js_neg NaN = NaN"

fun js_add :: "number \<Rightarrow> number \<Rightarrow> number" where
  "js_add (Num a) (Num b) = Num (a + b)"
| "js_add NaN _ = NaN"
| "js_add _ NaN = NaN"
| "js_add PosInf NegInf = NaN"
| "js_add NegInf PosInf = NaN"
| "js_add PosInf _ = PosInf"
| "js_add _ PosInf = PosInf"
| "js_add NegInf _ = NegInf"
| "js_add _ NegInf = NegInf"

definition js_sub :: "number \<Rightarrow> number \<Rightarrow> number" where
  "js_sub a b = js_add a (js_neg b)"

text \<open>The sign of a number that is not NaN, as \<open>-1\<close>, \<open>0\<close> or \<open>1\<close>.\<close>

fun js_sign :: "number \<Rightarrow> int" where
  "js_sign (Num a) = (if a < 0 then - 1 else if a = 0 then 0 else 1)"
| "js_sign PosInf = 1"
| "js_sign NegInf = - 1"
| "js_sign NaN = 0"

definition signed_inf :: "int \<Rightarrow> number" where
  "signed_inf s = (if s < 0 then NegInf else PosInf)"

fun js_mul :: "number \<Rightarrow> number \<Rightarrow> number" where
  "js_mul (Num a) (Num b) = Num (a * b)"
| "js_mul NaN _ = NaN"
| "js_mul _ NaN = NaN"
| "js_mul a b =
     (if js_sign a = 0 \<or> js_sign b = 0 then NaN else signed_inf (js_sign a * js_sign b))"

text \<open>
  Division: a finite number divided by zero is an infinity of the dividend's sign (the
  zero taken as positive), and NaN when the dividend is zero too.
\<close>

fun js_div :: "number \<Rightarrow> number \<Rightarrow> number" where
  "js_div (Num a) (Num b) =
     (if b = 0 then (if a = 0 then NaN else signed_inf (js_sign (Num a))) else Num (a / b))"
| "js_div NaN _ = NaN"
| "js_div _ NaN = NaN"
| "js_div (Num a) _ = Num 0"
| "js_div a (Num b) = signed_inf (js_sign a * (if b < 0 then - 1 else 1))"
| "js_div _ _ = NaN"

text \<open>
  The remainder operator \<open>%\<close>: the result has the sign of the dividend, the quotient
  being truncated towards zero.
\<close>

definition trunc :: "rat \<Rightarrow> int" where
  "trunc x = (if 0 \<le> x then \<lfloor>x\<rfloor> else \<lceil>x\<rceil>)"

fun js_rem :: "number \<Rightarrow> number \<Rightarrow> number" where
  "js_rem (Num a) (Num b) = (if b = 0 then NaN else Num (a - b * of_int (trunc (a / b))))"
| "js_rem (Num a) PosInf = Num a"
| "js_rem (Num a) NegInf = Num a"
| "js_rem _ _ = NaN"

fun js_lt :: "number \<Rightarrow> number \<Rightarrow> bool" where
  "js_lt (Num a) (Num b) = (a < b)"
| "js_lt NaN _ = False"
| "js_lt _ NaN = False"
| "js_lt NegInf b = (b \<noteq> NegInf)"
| "js_lt a PosInf = (a \<noteq> PosInf)"
| "js_lt _ _ = False"

definition js_gt :: "number \<Rightarrow> number \<Rightarrow> bool" where
  "js_gt a b = js_lt b a"

text \<open>Truthiness of a number (\<open>!J\<close>, lodash \<open>compact\<close>): zero and NaN are falsy.\<close>

fun truthy :: "number \<Rightarrow> bool" where
  "truthy (Num a) = (a \<noteq> 0)"
| "truthy NaN = False"
| "truthy _ = True"

text \<open>\<open>Math.round\<close> rounds to the nearest integer, a tie towards plus infinity.\<close>

fun Math_round :: "number \<Rightarrow> number" where
  "Math_round (Num a) = Num (of_int \<lfloor>a + 1 / 2\<rfloor>)"
| "Math_round x = x"

fun Math_abs :: "number \<Rightarrow> number" where
  "Math_abs (Num a) = Num \<bar>a\<bar>"
| "Math_abs NaN = NaN"
| "Math_abs _ = PosInf"

section \<open>Coupling constants: \<open>isJValid\<close> and \<open>roundJ\<close> of the H1 component\<close>

text \<open>
  \<^verbatim>\<open>private isJValid(J: number|null, freq: number): boolean {
    if (!J) { return false; }
    const MAGNIFICATION = 1000;
    return MAGNIFICATION * J % freq === 0;
  }\<close>
  \<open>None\<close> is \<open>null\<close>.
\<close>

definition MAGNIFICATION :: number where
  "MAGNIFICATION = Num 1000"

definition isJValid :: "number option \<Rightarrow> number \<Rightarrow> bool" where
  "isJValid J freq =
     (case J of
        None \<Rightarrow> False
      | Some j \<Rightarrow>
          if \<not> truthy j then False
          else js_rem (js_mul MAGNIFICATION j) freq = Num 0)"

text \<open>
  \<^verbatim>\<open>private roundJ(J: number, freq: number): number {
    const MAGNIFICATION = 1000;
    return Math.round(MAGNIFICATION * J / freq) * freq / MAGNIFICATION;
  }\<close>
\<close>

definition roundJ :: "number \<Rightarrow> number \<Rightarrow> number" where
  "roundJ J freq =
     js_div (js_mul (Math_round (js_div (js_mul MAGNIFICATION J) freq)) freq) MAGNIFICATION"

section \<open>Strings\<close>

definition starts_with :: "string \<Rightarrow> string \<Rightarrow> bool" where
  "starts_with p s = (take (length p) s = p)"

text \<open>\<open>includes(string, sub)\<close> of lodash on a string: \<open>sub\<close> occurs in it.\<close>

fun includes_str :: "string \<Rightarrow> string \<Rightarrow> bool" where
  "includes_str [] sub = (sub = [])"
| "includes_str (c # cs) sub = (starts_with sub (c # cs) \<or> includes_str cs sub)"

text \<open>
  \<open>replace(string, pattern, replacement)\<close> of lodash with a string pattern is
  \<open>String.prototype.replace\<close>: the first occurrence of the pattern is replaced, and in the
  replacement text \<open>$$\<close> stands for a dollar sign, \<open>$&\<close> for the matched text, \<open>$`\<close> for
  the text before the match and \<open>$'\<close> for the text after it. Without an occurrence the
  string is returned unchanged.
\<close>

fun get_substitution :: "string \<Rightarrow> string \<Rightarrow> string \<Rightarrow> string \<Rightarrow> string" where
  "get_substitution matched before after (c # d # r) =
     (if c = CHR ''$'' \<and> d = CHR ''$'' then CHR ''$'' # get_substitution matched before after r
      else if c = CHR ''$'' \<and> d = CHR ''&'' then matched @ get_substitution matched before after r
      else if c = CHR ''$'' \<and> d = CHR 0x60 then before @ get_substitution matched before after r
      else if c = CHR ''$'' \<and> d = CHR 0x27 then after @ get_substitution matched before after r
      else c # get_substitution matched before after (d # r))"
| "get_substitution matched before after r = r"

fun replace_from :: "string \<Rightarrow> string \<Rightarrow> string \<Rightarrow> string \<Rightarrow> string" where
  "replace_from before pat rep [] =
     (if pat = [] then before @ get_substitution pat before [] rep else before)"
| "replace_from before pat rep (c # cs) =
     (if starts_with pat (c # cs)
      then before @ get_substitution pat before (drop (length pat) (c # cs)) rep
             @ drop (length pat) (c # cs)
      else replace_from (before @ [c]) pat rep cs)"

definition replace_str :: "string \<Rightarrow> string \<Rightarrow> string \<Rightarrow> string" where
  "replace_str s pat rep = replace_from [] pat rep s"

text \<open>\<open>s.split(c)\<close> for a one-character separator; the result is never empty.\<close>

fun split_char :: "char \<Rightarrow> string \<Rightarrow> string list" where
  "split_char c [] = [[]]"
| "split_char c (x # xs) =
     (if x = c then [] # split_char c xs
      else (case split_char c xs of
              h # t \<Rightarrow> (x # h) # t
            | [] \<Rightarrow> [[x]]))"

text \<open>
  \<open>s.substr(-1)\<close>: the last character of \<open>s\<close> as a string, empty for the empty string.
  The code compares it with the ASCII characters \<open>H\<close>, \<open>.\<close> and \<open>;\<close> only, and the last
  byte of a UTF-8 string is one of these exactly when its last character is.
\<close>

definition substr_last :: "string \<Rightarrow> string" where
  "substr_last s = (if s = [] then [] else [last s])"

text \<open>Array access \<open>xs[i]\<close>: \<open>undefined\<close> (\<open>None\<close>) beyond the end.\<close>

definition at_index :: "'a list \<Rightarrow> nat \<Rightarrow> 'a option" where
  "at_index xs i = (if i < length xs then Some (xs ! i) else None)"

subsection \<open>Decimal numerals\<close>

definition is_digit :: "char \<Rightarrow> bool" where
  "is_digit c = (c \<in> set ''0123456789'')"

definition digit_val :: "char \<Rightarrow> nat" where
  "digit_val c = of_char c - 48"

definition nat_of_digits :: "string \<Rightarrow> nat" where
  "nat_of_digits ds = foldl (\<lambda>a c. 10 * a + digit_val c) 0 ds"

fun digits_of :: "nat \<Rightarrow> string" where
  "digits_of n =
     (if n < 10 then [''0123456789'' ! n]
      else digits_of (n div 10) @ [''0123456789'' ! (n mod 10)])"

text \<open>
  \<open>Number(s)\<close> for a string: white space around the numeral is ignored, the empty string
  is 0, and the numeral is an optionally signed \<open>Infinity\<close> or decimal literal (digits
  with an optional fraction and an optional exponent). Anything else is NaN. Not
  modelled, and NaN here: the hexadecimal, octal and binary literals that JavaScript
  also accepts; of the white space only the ASCII characters are recognised.
\<close>

definition is_space :: "char \<Rightarrow> bool" where
  "is_space c = (c \<in> set [CHR '' '', CHR 0x09, CHR 0x0A, CHR 0x0B, CHR 0x0C, CHR 0x0D])"

definition trim :: "string \<Rightarrow> string" where
  "trim s = rev (dropWhile is_space (rev (dropWhile is_space s)))"

text \<open>The exponent part: empty, or \<open>e\<close> or \<open>E\<close>, an optional sign and digits.\<close>

definition exponent_part :: "string \<Rightarrow> int option" where
  "exponent_part s =
     (case s of
        [] \<Rightarrow> Some 0
      | c # r \<Rightarrow>
          if c = CHR ''e'' \<or> c = CHR ''E'' then
            (case r of
               [] \<Rightarrow> None
             | d # ds \<Rightarrow>
                 if d = CHR ''-'' \<and> ds \<noteq> [] \<and> list_all is_digit ds
                   then Some (- int (nat_of_digits ds))
                 else if d = CHR ''+'' \<and> ds \<noteq> [] \<and> list_all is_digit ds
                   then Some (int (nat_of_digits ds))
                 else if list_all is_digit (d # ds) then Some (int (nat_of_digits (d # ds)))
                 else None)
          else None)"

definition unsigned_decimal :: "string \<Rightarrow> rat option" where
  "unsigned_decimal s =
     (let ip = takeWhile is_digit s;
          r1 = dropWhile is_digit s;
          fp = (case r1 of [] \<Rightarrow> [] | c # t \<Rightarrow> if c = CHR ''.'' then takeWhile is_digit t else []);
          r2 = (case r1 of [] \<Rightarrow> [] | c # t \<Rightarrow> if c = CHR ''.'' then dropWhile is_digit t else r1)
      in if ip = [] \<and> fp = [] then None
         else (case exponent_part r2 of
                 None \<Rightarrow> None
               | Some e \<Rightarrow>
                   Some ((of_nat (nat_of_digits ip)
                            + of_nat (nat_of_digits fp) / 10 ^ length fp)
                         * (if 0 \<le> e then 10 ^ nat e else 1 / 10 ^ nat (- e)))))"

definition unsigned_literal :: "string \<Rightarrow> number" where
  "unsigned_literal s =
     (if s = ''Infinity'' then PosInf
      else (case unsigned_decimal s of None \<Rightarrow> NaN | Some v \<Rightarrow> Num v))"

definition Number_of_string :: "string \<Rightarrow> number" where
  "Number_of_string s =
     (case trim s of
        [] \<Rightarrow> Num 0
      | c # r \<Rightarrow>
          if c = CHR ''-'' then js_neg (unsigned_literal r)
          else if c = CHR ''+'' then unsigned_literal r
          else unsigned_literal (c # r))"

text \<open>\<open>Number\<close> of a value that may be \<open>undefined\<close>: \<open>Number(undefined)\<close> is NaN.\<close>

definition Number_of :: "string option \<Rightarrow> number" where
  "Number_of v = (case v of None \<Rightarrow> NaN | Some s \<Rightarrow> Number_of_string s)"

text \<open>
  \<open>x.toFixed(d)\<close>: the sign, then the decimal expansion of the integer \<open>n\<close> for which
  \<open>n / 10^d\<close> is nearest to \<open>|x|\<close> (the larger \<open>n\<close> at a tie), with \<open>d\<close> digits after the
  point. From \<open>10^21\<close> on JavaScript switches to exponent notation, which is not modelled.
\<close>

definition fixed_digits :: "nat \<Rightarrow> nat \<Rightarrow> string" where
  "fixed_digits d n =
     (let ds = digits_of n;
          padded = replicate (Suc d - length ds) (CHR ''0'') @ ds;
          ip = take (length padded - d) padded;
          fp = drop (length padded - d) padded
      in if d = 0 then ip else ip @ ''.'' @ fp)"

fun toFixed :: "number \<Rightarrow> nat \<Rightarrow> string" where
  "toFixed (Num x) d =
     (if x < 0 then ''-'' else '''') @ fixed_digits d (nat \<lfloor>\<bar>x\<bar> * 10 ^ d + 1 / 2\<rfloor>)"
| "toFixed NaN d = ''NaN''"
| "toFixed PosInf d = ''Infinity''"
| "toFixed NegInf d = ''-Infinity''"

text \<open>
  \<open>round(x, precision)\<close> of lodash shifts the decimal point of \<open>x\<close> by \<open>precision\<close> places
  in its decimal notation, applies \<open>Math.round\<close> and shifts back.
\<close>

fun round_lodash :: "number \<Rightarrow> nat \<Rightarrow> number" where
  "round_lodash (Num x) p = Num (of_int \<lfloor>x * 10 ^ p + 1 / 2\<rfloor> / 10 ^ p)"
| "round_lodash x p = x"

text \<open>\<open>compact\<close> of lodash on an array of numbers removes the falsy ones.\<close>

definition compact_numbers :: "number list \<Rightarrow> number list" where
  "compact_numbers xs = filter truthy xs"

text \<open>\<open>join\<close> of an array of strings.\<close>

fun join_str :: "string \<Rightarrow> string list \<Rightarrow> string" where
  "join_str sep [] = []"
| "join_str sep [x] = x"
| "join_str sep (x # y # ys) = x @ sep @ join_str sep (y # ys)"

section \<open>What the components import\<close>

text \<open>
  The sources at hand are the three component files. What they import from
  \<open>./utils\<close> (the regular expressions, the tables of \<open>utils/nmr\<close>, \<open>highlightData\<close>,
  \<open>escapeSpace\<close>, the class \<open>Formula\<close>) is not among them, so every function below takes
  these as a parameter, the record \<open>externals\<close>, and the theorems hold for whatever they
  are. The two enumerations are declared with the members the components use.
\<close>

datatype HighlightType = Danger | Warning | Success

datatype Languages = English | Chinese

text \<open>
  The message tables hold an English and a Chinese text each, and the code selects with
  \<open>[currentLanguage]\<close>.
\<close>

fun pick :: "string \<times> string \<Rightarrow> Languages \<Rightarrow> string" where
  "pick (en, zh) English = en"
| "pick (en, zh) Chinese = zh"

text \<open>
  What \<open>data.match(regex)\<close> returns for the two peak grammars, by the groups the code
  reads: of \<open>h1PeakWithJs\<close> the groups 1 (shift), 2 (multiplicity), 3 to 5 (coupling
  constants, \<open>undefined\<close> for a group that took no part) and 6 (hydrogen count); of
  \<open>h1PeakWithoutJs\<close> the groups 0 (the whole match), 1 (shift), 3 (multiplicity) and 4
  (hydrogen count).
\<close>

record coupling_match =
  cm_shift :: string
  cm_type :: string
  cm_J1 :: "string option"
  cm_J2 :: "string option"
  cm_J3 :: "string option"
  cm_hydrogen :: string

record noncoupling_match =
  nm_all :: string
  nm_shift :: string
  nm_type :: string
  nm_hydrogen :: string

text \<open>
  The groups of the HRMS expressions (\<open>hrmsRegex\<close>), \<open>undefined\<close> where the code itself
  allows for it: of \<open>yieldReg\<close> and \<open>weightReg\<close> the groups 1 and 2; of \<open>sourceReg\<close>
  group 1; of \<open>ionReg\<close> the groups 0 to 4; of \<open>dataReg\<close> the groups 1, 3 and 4.
\<close>

record amount_match =
  am_value :: "string option"
  am_rest :: "string option"

record ion_match =
  im_all :: string
  im_1 :: "string option"
  im_2 :: "string option"
  im_3 :: "string option"
  im_4 :: "string option"

record data_match =
  dm_formula :: "string option"
  dm_exact :: "string option"
  dm_found :: "string option"

record externals =
  isPeak :: "string \<Rightarrow> bool"
  isSinglePeak :: "string \<Rightarrow> bool"
  isMultiplePeak :: "string \<Rightarrow> bool"
  isMultiplePeakWithJ :: "string \<Rightarrow> bool \<Rightarrow> bool"
  JCount :: "string \<Rightarrow> nat option"
  h1PeakWithJs :: "bool \<Rightarrow> string \<Rightarrow> coupling_match option"
  h1PeakWithoutJs :: "bool \<Rightarrow> string \<Rightarrow> noncoupling_match option"
  highlightData :: "string \<Rightarrow> HighlightType \<Rightarrow> string option \<Rightarrow> string"
  escapeSpace :: "string \<Rightarrow> string"
  yieldReg :: "string \<Rightarrow> amount_match option"
  weightReg :: "string \<Rightarrow> amount_match option"
  hrmsReg :: "string \<Rightarrow> string option"
  sourceReg :: "string \<Rightarrow> string option"
  ionReg :: "string \<Rightarrow> ion_match option"
  dataReg :: "string \<Rightarrow> data_match option"
  Formula_isValid :: "string \<Rightarrow> bool"
  Formula_getExactMass :: "string \<Rightarrow> number"
  Formula_toString :: "string \<Rightarrow> string"
  Formula_toFormattedString :: "string \<Rightarrow> string"

section \<open>The H1 component: peak entries\<close>

text \<open>
  \<open>H1Data\<close>: the chemical shift is a string or an array of strings, the coupling
  constants are an array of numbers or \<open>null\<close>, and the flags and the message are
  optional properties (\<open>None\<close> is \<open>undefined\<close>). \<open>parsePeakData\<close> returns an entry or,
  for a token it cannot read, the highlighted text.
\<close>

datatype peak_value = Shift string | ShiftRange "string list"

record H1Data =
  peak :: peak_value
  peakType :: string
  Js :: "number list option"
  hydrogenCount :: number
  danger :: "bool option"
  peakTypeError :: "bool option"
  warning :: "bool option"
  errMsg :: "string option"

datatype parsed_peak = Entry H1Data | Text string

definition peakRangePlaceholder :: string where
  "peakRangePlaceholder = ''PEAKRANGE''"

text \<open>
  \<open>tooltipErrors\<close>: entry 0 of the source's array is itself an array of four pairs,
  \<open>tooltipErrors0\<close> here, and a pair of empty strings holds its place in the list; the
  entries 1 to 10 are pairs.
\<close>

definition tooltipErrors0 :: "(string \<times> string) list" where
  "tooltipErrors0 =
     [('' only'',
       [CHR 0xE5, CHR 0x8F, CHR 0xAA]),
      ('' peak should'',
       [CHR 0xE5, CHR 0xB3, CHR 0xB0, CHR 0xE5, CHR 0xBA, CHR 0x94]),
      ('' have '',
       [CHR 0xE6, CHR 0x9C, CHR 0x89]),
      ('' coupling constant'',
       [CHR 0xE4, CHR 0xB8, CHR 0xAA, CHR 0xE8, CHR 0x80, CHR 0xA6, CHR 0xE5, CHR 0x90,
       CHR 0x88, CHR 0xE5, CHR 0xB8, CHR 0xB8, CHR 0xE6, CHR 0x95, CHR 0xB0])]"

definition tooltipErrors :: "(string \<times> string) list" where
  "tooltipErrors =
     [('''', ''''),
      (''Invalid format.'',
       [CHR 0xE6, CHR 0xA0, CHR 0xBC, CHR 0xE5, CHR 0xBC, CHR 0x8F, CHR 0xE6, CHR 0x9C,
       CHR 0x89, CHR 0xE8, CHR 0xAF, CHR 0xAF]),
      (''Chemical shift of multiplet should be written from low field to high field.'',
       [CHR 0xE5, CHR 0xA4, CHR 0x9A, CHR 0xE9, CHR 0x87, CHR 0x8D, CHR 0xE5, CHR 0xB3,
       CHR 0xB0, CHR 0xE5, CHR 0x8C, CHR 0x96, CHR 0xE5, CHR 0xAD, CHR 0xA6,
       CHR 0xE4, CHR 0xBD, CHR 0x8D, CHR 0xE7, CHR 0xA7, CHR 0xBB, CHR 0xE5,
       CHR 0x8C, CHR 0xBA, CHR 0xE9, CHR 0x97, CHR 0xB4, CHR 0xE5, CHR 0xBA,
       CHR 0x94, CHR 0xE7, CHR 0x94, CHR 0xB1, CHR 0xE4, CHR 0xBD, CHR 0x8E,
       CHR 0xE5, CHR 0x9C, CHR 0xBA, CHR 0xE5, CHR 0x90, CHR 0x91, CHR 0xE9,
       CHR 0xAB, CHR 0x98, CHR 0xE5, CHR 0x9C, CHR 0xBA, CHR 0xE4, CHR 0xB9,
       CHR 0xA6, CHR 0xE5, CHR 0x86, CHR 0x99]),
      ('' peak type does not exists.'',
       [CHR 0xE5, CHR 0xB3, CHR 0xB0, CHR 0xE7, CHR 0xB1, CHR 0xBB, CHR 0xE5, CHR 0x9E,
       CHR 0x8B, CHR 0xE4, CHR 0xB8, CHR 0x8D, CHR 0xE5, CHR 0xAD, CHR 0x98,
       CHR 0xE5, CHR 0x9C, CHR 0xA8]),
      (''Multiplet peaks should be reported in interval'',
       [CHR 0xE5, CHR 0xA4, CHR 0x9A, CHR 0xE9, CHR 0x87, CHR 0x8D, CHR 0xE5, CHR 0xB3,
       CHR 0xB0, CHR 0xE5, CHR 0x8C, CHR 0x96, CHR 0xE5, CHR 0xAD, CHR 0xA6,
       CHR 0xE4, CHR 0xBD, CHR 0x8D, CHR 0xE7, CHR 0xA7, CHR 0xBB, CHR 0xE5,
       CHR 0xBA, CHR 0x94, CHR 0xE4, CHR 0xB8, CHR 0xBA, CHR 0xE5, CHR 0x8C,
       CHR 0xBA, CHR 0xE9, CHR 0x97, CHR 0xB4, CHR 0xE5, CHR 0xBD, CHR 0xA2,
       CHR 0xE5, CHR 0xBC, CHR 0x8F]),
      (''Do not report coupling constants in multiplet peaks'',
       [CHR 0xE5, CHR 0xA4, CHR 0x9A, CHR 0xE9, CHR 0x87, CHR 0x8D, CHR 0xE5, CHR 0xB3,
       CHR 0xB0, CHR 0xE4, CHR 0xB8, CHR 0x8D, CHR 0xE5, CHR 0xAD, CHR 0x98,
       CHR 0xE5, CHR 0x9C, CHR 0xA8, CHR 0xE8, CHR 0x80, CHR 0xA6, CHR 0xE5,
       CHR 0x90, CHR 0x88, CHR 0xE5, CHR 0xB8, CHR 0xB8, CHR 0xE6, CHR 0x95,
       CHR 0xB0]),
      ('' peak should have only one chemical shift'',
       [CHR 0xE5, CHR 0xB3, CHR 0xB0, CHR 0xE5, CHR 0x8C, CHR 0x96, CHR 0xE5, CHR 0xAD,
       CHR 0xA6, CHR 0xE4, CHR 0xBD, CHR 0x8D, CHR 0xE7, CHR 0xA7, CHR 0xBB,
       CHR 0xE5, CHR 0xBA, CHR 0x94, CHR 0xE4, CHR 0xB8, CHR 0xBA, CHR 0xE5,
       CHR 0x8D, CHR 0x95, CHR 0xE5, CHR 0x80, CHR 0xBC]),
      ('' peak do not have coupling constants'',
       [CHR 0xE5, CHR 0xB3, CHR 0xB0, CHR 0xE4, CHR 0xB8, CHR 0x8D, CHR 0xE5, CHR 0xAD,
       CHR 0x98, CHR 0xE5, CHR 0x9C, CHR 0xA8, CHR 0xE8, CHR 0x80, CHR 0xA6,
       CHR 0xE5, CHR 0x90, CHR 0x88, CHR 0xE5, CHR 0xB8, CHR 0xB8, CHR 0xE6,
       CHR 0x95, CHR 0xB0]),
      ('' peak should have coupling constants'',
       [CHR 0xE5, CHR 0xB3, CHR 0xB0, CHR 0xE5, CHR 0xBA, CHR 0x94, CHR 0xE6, CHR 0x9C,
       CHR 0x89, CHR 0xE8, CHR 0x80, CHR 0xA6, CHR 0xE5, CHR 0x90, CHR 0x88,
       CHR 0xE5, CHR 0xB8, CHR 0xB8, CHR 0xE6, CHR 0x95, CHR 0xB0]),
      (''Original data: '',
       [CHR 0xE5, CHR 0x8E, CHR 0x9F, CHR 0xE5, CHR 0xA7, CHR 0x8B, CHR 0xE6, CHR 0x95,
       CHR 0xB0, CHR 0xE6, CHR 0x8D, CHR 0xAE, CHR 0xEF, CHR 0xBC, CHR 0x9A]),
      ('' peak has been marked as multiplets, please report the spectrum data manually'',
       [CHR 0xE5, CHR 0xB3, CHR 0xB0, CHR 0xE5, CHR 0xB7, CHR 0xB2, CHR 0xE8, CHR 0xA2,
       CHR 0xAB, CHR 0xE6, CHR 0xA0, CHR 0x87, CHR 0xE6, CHR 0xB3, CHR 0xA8,
       CHR 0xE4, CHR 0xB8, CHR 0xBA, CHR 0xE5, CHR 0xA4, CHR 0x9A, CHR 0xE9,
       CHR 0x87, CHR 0x8D, CHR 0xE5, CHR 0xB3, CHR 0xB0, CHR 0xEF, CHR 0xBC,
       CHR 0x8C, CHR 0xE8, CHR 0xAF, CHR 0xB7, CHR 0xE4, CHR 0xBB, CHR 0x8E]
       @ ''MestReNova'' @ [CHR 0xE4, CHR 0xB8, CHR 0xAD, CHR 0xE6, CHR 0x89,
       CHR 0x8B, CHR 0xE5, CHR 0x8A, CHR 0xA8, CHR 0xE8, CHR 0xBE, CHR 0x93,
       CHR 0xE5, CHR 0x85, CHR 0xA5, CHR 0xE5, CHR 0x8C, CHR 0x96, CHR 0xE5,
       CHR 0xAD, CHR 0xA6, CHR 0xE4, CHR 0xBD, CHR 0x8D, CHR 0xE7, CHR 0xA7,
       CHR 0xBB, CHR 0xE6, CHR 0x95, CHR 0xB0, CHR 0xE6, CHR 0x8D, CHR 0xAE])]"

text \<open>
  The regular expression \<open>splitReg\<close> of \<open>parsePeakData\<close>: spaces, one of the three
  dashes (the en dash U+2013, the minus sign U+2212 and the ASCII hyphen), spaces.
  \<open>splitReg_at\<close> matches it at the start of a string and returns the matched text and
  the rest.
\<close>

definition en_dash :: string where
  "en_dash = [CHR 0xE2, CHR 0x80, CHR 0x93]"

definition minus_sign :: string where
  "minus_sign = [CHR 0xE2, CHR 0x88, CHR 0x92]"

definition dash_length :: "string \<Rightarrow> nat option" where
  "dash_length s =
     (if starts_with en_dash s then Some 3
      else if starts_with minus_sign s then Some 3
      else if starts_with ''-'' s then Some 1
      else None)"

definition splitReg_at :: "string \<Rightarrow> (string \<times> string) option" where
  "splitReg_at s =
     (let s1 = dropWhile (\<lambda>c. c = CHR '' '') s in
      case dash_length s1 of
        None \<Rightarrow> None
      | Some n \<Rightarrow>
          let rest = dropWhile (\<lambda>c. c = CHR '' '') (drop n s1)
          in Some (take (length s - length rest) s, rest))"

text \<open>\<open>s.match(splitReg)\<close>: the text of the leftmost match, \<open>None\<close> for \<open>null\<close>.\<close>

fun splitReg_match :: "string \<Rightarrow> string option" where
  "splitReg_match [] = None"
| "splitReg_match (c # cs) =
     (case splitReg_at (c # cs) of
        Some (m, rest) \<Rightarrow> Some m
      | None \<Rightarrow> splitReg_match cs)"

text \<open>\<open>s.split(splitReg)\<close>: the pieces between the successive matches.\<close>

function splitReg_split :: "string \<Rightarrow> string \<Rightarrow> string list" where
  "splitReg_split cur [] = [cur]"
| "splitReg_split cur (c # cs) =
     (case splitReg_at (c # cs) of
        Some (m, rest) \<Rightarrow> cur # splitReg_split [] rest
      | None \<Rightarrow> splitReg_split (cur @ [c]) cs)"
  by pat_completeness auto

lemma starts_with_length:
  assumes "starts_with p s"
  shows "length p \<le> length s"
proof -
  have "length (take (length p) s) = length p"
    using assms by (simp only: starts_with_def)
  then show ?thesis by simp
qed

lemma dash_length_bound:
  assumes "dash_length s = Some n"
  shows "0 < n \<and> n \<le> length s"
proof -
  have "length en_dash = 3" "length minus_sign = 3" "length ''-'' = 1"
    by (simp_all add: en_dash_def minus_sign_def)
  then show ?thesis
    using assms starts_with_length [of en_dash s] starts_with_length [of minus_sign s]
      starts_with_length [of "''-''" s]
    by (auto simp: dash_length_def split: if_splits)
qed

lemma splitReg_at_shorter:
  assumes "splitReg_at s = Some (m, rest)"
  shows "length rest < length s"
proof -
  let ?s1 = "dropWhile (\<lambda>c. c = CHR '' '') s"
  obtain n where n: "dash_length ?s1 = Some n"
    and rest: "rest = dropWhile (\<lambda>c. c = CHR '' '') (drop n ?s1)"
    using assms by (auto simp: splitReg_at_def Let_def split: option.splits)
  have "0 < n \<and> n \<le> length ?s1"
    using n by (rule dash_length_bound)
  then have "length (drop n ?s1) < length ?s1" by auto
  moreover have "length rest \<le> length (drop n ?s1)"
    unfolding rest by (rule length_dropWhile_le)
  moreover have "length ?s1 \<le> length s" by (rule length_dropWhile_le)
  ultimately show ?thesis by linarith
qed

termination splitReg_split
  by (relation "measure (\<lambda>(cur, s). length s)") (auto dest: splitReg_at_shorter)

definition validHyphen :: "string list" where
  "validHyphen =
     [en_dash, '' '' @ en_dash @ '' '', minus_sign, '' '' @ minus_sign @ '' '', '' - '', ''-'']"

definition validEnding :: "string list" where
  "validEnding = [''H'', ''.'', '';'']"

text \<open>\<open>${JCount[peakType]}\<close> in a template: the count in decimal, or \<open>undefined\<close>.\<close>

definition count_text :: "nat option \<Rightarrow> string" where
  "count_text n = (case n of None \<Rightarrow> ''undefined'' | Some k \<Rightarrow> digits_of k)"

text \<open>
  \<open>parsePeakData(data)\<close>, with the strict-mode switch and the current language, which the
  source reads from the component and from \<open>LanguageService\<close>, as parameters.
\<close>

definition parsePeakData :: "externals \<Rightarrow> bool \<Rightarrow> Languages \<Rightarrow> string \<Rightarrow> parsed_peak" where
  "parsePeakData ext isStrict currentLanguage data =
     (case h1PeakWithJs ext isStrict data of
        Some couplingMatch \<Rightarrow>
          let Js' = compact_numbers (map Number_of
                      [cm_J1 couplingMatch, cm_J2 couplingMatch, cm_J3 couplingMatch]);
              peakType' = cm_type couplingMatch;
              JNumber = JCount ext peakType'
          in if Some (length Js') \<noteq> JNumber then
               let zhi = (if JNumber = Some 1 then pick (tooltipErrors0 ! 0) currentLanguage
                          else '''');
                   end' = (if currentLanguage = Chinese
                              \<and> (case JNumber of None \<Rightarrow> False | Some n \<Rightarrow> 1 < n)
                           then ''s'' else '''')
               in Entry \<lparr>peak = Shift (cm_shift couplingMatch),
                         peakType = peakType',
                         Js = Some Js',
                         hydrogenCount = Number_of_string (cm_hydrogen couplingMatch),
                         danger = None,
                         peakTypeError = Some True,
                         warning = None,
                         errMsg = Some (peakType' @ pick (tooltipErrors0 ! 1) currentLanguage
                                    @ zhi @ pick (tooltipErrors0 ! 2) currentLanguage
                                    @ count_text (JCount ext peakType')
                                    @ pick (tooltipErrors0 ! 3) currentLanguage @ end')\<rparr>
             else Entry \<lparr>peak = Shift (cm_shift couplingMatch),
                         peakType = peakType',
                         Js = Some Js',
                         hydrogenCount = Number_of_string (cm_hydrogen couplingMatch),
                         danger = None,
                         peakTypeError = Some False,
                         warning = None,
                         errMsg = Some ''''\<rparr>
      | None \<Rightarrow>
          (case h1PeakWithoutJs ext isStrict data of
             Some nonCouplingMatch \<Rightarrow>
               let hyphen = (case splitReg_match (nm_shift nonCouplingMatch) of
                               Some m \<Rightarrow> m
                             | None \<Rightarrow> '''');
                   peakArr = splitReg_split [] (nm_shift nonCouplingMatch)
               in if substr_last (nm_all nonCouplingMatch) \<notin> set validEnding then
                    Text (highlightData ext
                            (escapeSpace ext
                               (if includes_str data '')'' then data else data @ '')''))
                            Danger (Some (pick (tooltipErrors ! 1) currentLanguage)))
                  else if isStrict \<and> hyphen \<notin> set validHyphen \<and> hyphen \<noteq> '''' then
                    Entry \<lparr>peak = Shift (highlightData ext (nm_shift nonCouplingMatch) Danger
                                           (Some (pick (tooltipErrors ! 1) currentLanguage))),
                           peakType = nm_type nonCouplingMatch,
                           Js = None,
                           hydrogenCount = Number_of_string (nm_hydrogen nonCouplingMatch),
                           danger = None,
                           peakTypeError = None,
                           warning = None,
                           errMsg = None\<rparr>
                  else
                    let danger' = js_lt (Number_of (at_index peakArr 0))
                                        (Number_of (at_index peakArr 1))
                    in Entry \<lparr>peak = (if length peakArr = 1 then Shift (peakArr ! 0)
                                       else ShiftRange peakArr),
                              peakType = nm_type nonCouplingMatch,
                              Js = None,
                              hydrogenCount = Number_of_string (nm_hydrogen nonCouplingMatch),
                              danger = Some danger',
                              peakTypeError = None,
                              warning = None,
                              errMsg = Some (if danger' then pick (tooltipErrors ! 2) currentLanguage
                                             else '''')\<rparr>
           | None \<Rightarrow>
               Text (highlightData ext
                       (escapeSpace ext
                          (if includes_str data '')'' then data else data @ '')''))
                       Danger (Some (pick (tooltipErrors ! 1) currentLanguage)))))"

section \<open>The H1 component: \<open>fixPeakData\<close>\<close>

text \<open>
  \<open>fixPeakData(peakDatum, freq)\<close>. The two check boxes it reads from the page
  (\<open>$general.checked\<close> and \<open>$autoFixJ.checked\<close>) and the current language are parameters.
  The source works on a shallow copy of the entry and assigns to its fields one after
  the other; here each assignment is a record update. \<open>peakDatum\<close> itself is read twice
  after the copy was made, for the original coupling constants and for the original
  multiplicity; both are those of \<open>d\<close>. Two of the messages are template literals
  continued on the next line with a backslash: the line break is dropped and the
  indentation of the next line, 20 and 12 spaces, is part of the message.
\<close>

definition is_falsy :: "bool option \<Rightarrow> bool" where
  "is_falsy b = (b \<noteq> Some True)"

definition fixPeakData ::
  "externals \<Rightarrow> bool \<Rightarrow> bool \<Rightarrow> Languages \<Rightarrow> parsed_peak \<Rightarrow> number \<Rightarrow> parsed_peak" where
  "fixPeakData ext generalChecked autoFixJChecked currentLanguage peakDatum freq =
     (case peakDatum of
        Text s \<Rightarrow> Text s
      | Entry d \<Rightarrow>
          let isGeneral = \<not> generalChecked;
              willFixJ = autoFixJChecked
          in if \<not> isPeak ext (peakType d) then
               Entry (d\<lparr>peakTypeError := Some True,
                        errMsg := Some (peakType d @ pick (tooltipErrors ! 3) currentLanguage)\<rparr>)
             else if isMultiplePeak ext (peakType d) then
               let c1 = (case peak d of
                           Shift _ \<Rightarrow>
                             d\<lparr>danger := Some True,
                               errMsg := Some (pick (tooltipErrors ! 4) currentLanguage)\<rparr>
                         | ShiftRange _ \<Rightarrow> d);
                   c2 = (if Js c1 \<noteq> None
                         then c1\<lparr>warning := Some True,
                                 errMsg := Some (pick (tooltipErrors ! 5) currentLanguage)\<rparr>
                         else c1)
               in Entry c2
             else
               let c1 = (case peak d of
                           ShiftRange _ \<Rightarrow>
                             d\<lparr>danger := Some True,
                               errMsg := Some (peakType d
                                                @ pick (tooltipErrors ! 6) currentLanguage)\<rparr>
                         | Shift _ \<Rightarrow> d)
               in if isSinglePeak ext (peakType c1) then
                    (if Js c1 \<noteq> None
                     then Entry (c1\<lparr>peakTypeError := Some True,
                                     errMsg := Some (peakType c1
                                                     @ pick (tooltipErrors ! 7) currentLanguage)\<rparr>)
                     else Entry c1)
                  else if isMultiplePeakWithJ ext (peakType c1) isGeneral then
                    (if willFixJ then
                       (case Js c1 of
                          None \<Rightarrow>
                            Entry (c1\<lparr>peakTypeError := Some True,
                                      errMsg := Some (peakType c1
                                                      @ pick (tooltipErrors ! 8) currentLanguage)\<rparr>)
                        | Some js \<Rightarrow>
                            let isAllJValid = list_all (\<lambda>J. isJValid (Some J) freq) js
                            in if \<not> isAllJValid \<and> is_falsy (peakTypeError c1) then
                                 let originalJsString =
                                       join_str '', '' (map (\<lambda>J. toFixed J 1) js)
                                 in Entry (c1\<lparr>Js := Some (map (\<lambda>J. roundJ J freq) js),
                                             warning := Some True,
                                             errMsg := Some (pick (tooltipErrors ! 9) currentLanguage
                                                             @ ''<em>J</em> = ''
                                                             @ replicate 20 (CHR '' '')
                                                             @ originalJsString @ '' Hz'')\<rparr>)
                               else Entry c1)
                     else Entry c1)
                  else
                    Entry (c1\<lparr>danger := Some True,
                              peakType := ''m'',
                              peak := Shift peakRangePlaceholder,
                              Js := None,
                              errMsg := Some (peakType d @ replicate 12 (CHR '' '')
                                              @ pick (tooltipErrors ! 10) currentLanguage)\<rparr>))"

section \<open>The HRMS component\<close>

record HrmsData =
  data :: string
  source :: string
  ion :: string
  formula :: string
  exactMass :: string
  foundMass :: string
  calcdMass :: number

text \<open>\<open>string|HrmsData\<close>, the result of \<open>parseHrmsData\<close>.\<close>

datatype parsed_hrms = HrmsText string | Hrms HrmsData

text \<open>
  \<open>YieldWeightHrms\<close> and \<open>ParsedData\<close>. Their fields are prefixed, since the source uses
  the names \<open>hrms\<close>, \<open>errMsg\<close>, \<open>yield_\<close> and \<open>weight\<close> twice.
\<close>

record YieldWeightHrms =
  ywh_hrms :: string
  ywh_errMsg :: string
  ywh_yield :: number
  ywh_weight :: number

record ParsedData =
  pd_yield :: number
  pd_weight :: number
  pd_hrms :: parsed_hrms

record ComponentData =
  input :: "string list"
  outputPlain :: "string list"
  outputRich :: "string list"

text \<open>The message table \<open>this.errMsg\<close> of the component.\<close>

definition dataErr :: "string \<times> string" where
  "dataErr =
     (''HRMS Data not valid.'',
      [CHR 0xE6, CHR 0x95, CHR 0xB0, CHR 0xE6, CHR 0x8D, CHR 0xAE, CHR 0xE6, CHR 0x9C,
      CHR 0x89, CHR 0xE8, CHR 0xAF, CHR 0xAF])"

definition formatErr :: "string \<times> string" where
  "formatErr =
     (''Format not valid.'',
      [CHR 0xE6, CHR 0xA0, CHR 0xBC, CHR 0xE5, CHR 0xBC, CHR 0x8F, CHR 0xE6, CHR 0x9C,
      CHR 0x89, CHR 0xE8, CHR 0xAF, CHR 0xAF])"

definition decimalErr :: "string \<times> string" where
  "decimalErr =
     (''Mass value should be rounded to two decimal places'',
      [CHR 0xE5, CHR 0xBA, CHR 0x94, CHR 0xE4, CHR 0xBF, CHR 0x9D, CHR 0xE7, CHR 0x95,
      CHR 0x99] @ ''4'' @ [CHR 0xE4, CHR 0xBD, CHR 0x8D, CHR 0xE5, CHR 0xB0,
      CHR 0x8F, CHR 0xE6, CHR 0x95, CHR 0xB0])"

definition calcErr :: "string \<times> string" where
  "calcErr =
     (''Data error, calculated value: '',
      [CHR 0xE6, CHR 0x95, CHR 0xB0, CHR 0xE6, CHR 0x8D, CHR 0xAE, CHR 0xE9, CHR 0x94,
      CHR 0x99, CHR 0xE8, CHR 0xAF, CHR 0xAF, CHR 0xEF, CHR 0xBC, CHR 0x8C,
      CHR 0xE8, CHR 0xAE, CHR 0xA1, CHR 0xE7, CHR 0xAE, CHR 0x97, CHR 0xE5,
      CHR 0x80, CHR 0xBC, CHR 0xEF, CHR 0xBC, CHR 0x9A])"

definition foundErr :: "string \<times> string" where
  "foundErr =
     (''Deviation should be less than 0.003'',
      [CHR 0xE5, CHR 0x81, CHR 0x8F, CHR 0xE5, CHR 0xB7, CHR 0xAE, CHR 0xE5, CHR 0x80,
      CHR 0xBC, CHR 0xE5, CHR 0xBA, CHR 0x94, CHR 0xE5, CHR 0xB0, CHR 0x8F,
      CHR 0xE4, CHR 0xBA, CHR 0x8E] @ ''0.003'')"
text \<open>
  \<^verbatim>\<open>private getDangerStr(data: string, errMsg: string, strToReplace?: string): string {
    if (strToReplace === undefined) {
      return highlightData(data, HighlightType.Danger, errMsg);
    }
    const replacement = highlightData(strToReplace, HighlightType.Danger, errMsg);
    return replace(data, strToReplace, replacement);
  }\<close>
\<close>

definition getDangerStr :: "externals \<Rightarrow> string \<Rightarrow> string \<Rightarrow> string option \<Rightarrow> string" where
  "getDangerStr ext dat msg strToReplace =
     (case strToReplace of
        None \<Rightarrow> highlightData ext dat Danger (Some msg)
      | Some s \<Rightarrow> replace_str dat s (highlightData ext s Danger (Some msg)))"

text \<open>
  \<open>dangerOnCondition\<close>: the Danger string when the component is rendering the rich
  output (\<open>willHighlightData\<close>), the text as it is for the plain output.
\<close>

definition dangerOnCondition ::
  "externals \<Rightarrow> bool \<Rightarrow> string \<Rightarrow> string \<Rightarrow> string option \<Rightarrow> string" where
  "dangerOnCondition ext willHighlightData dat msg strToReplace =
     (if willHighlightData then getDangerStr ext dat msg strToReplace else dat)"

text \<open>
  \<^verbatim>\<open>private getIonMass(ion: string): number {
    if (ion === '') { return 0; }
    else { const massOfElectron = 0.000549; return -massOfElectron; }
  }\<close>
\<close>

definition massOfElectron :: number where
  "massOfElectron = Num (549 / 1000000)"

definition getIonMass :: "string \<Rightarrow> number" where
  "getIonMass i = (if i = '''' then Num 0 else js_neg massOfElectron)"

definition sourceList :: "string list" where
  "sourceList = [''ESI'', ''APCI'', ''EI'', ''MALDI'', ''CI'',
                 ''FD'', ''FI'', ''FAB'', ''APPI'', ''TS'', ''PB'', ''DART'']"

definition ionList :: "string list" where
  "ionList = ['''', ''H'', ''Na'', ''K'', ''Cs'']"

text \<open>\<open>a || b\<close> on strings that may be \<open>undefined\<close>: \<open>a\<close> unless it is \<open>undefined\<close> or empty.\<close>

definition js_or :: "string option \<Rightarrow> string option \<Rightarrow> string option" where
  "js_or a b = (case a of None \<Rightarrow> b | Some s \<Rightarrow> if s = '''' then b else Some s)"

text \<open>\<open>!v\<close> and \<open>String(v)\<close> for a string that may be \<open>undefined\<close>.\<close>

definition js_not :: "string option \<Rightarrow> bool" where
  "js_not v = (v = None \<or> v = Some '''')"

definition String_of :: "string option \<Rightarrow> string" where
  "String_of v = (case v of None \<Rightarrow> ''undefined'' | Some s \<Rightarrow> s)"

text \<open>
  The check of the counter ion in \<open>parseHrmsData\<close>: the Danger string it returns, or
  \<open>None\<close> when the function goes on to the data.
  \<^verbatim>\<open>ionPlusSign = ionMatch[1] || ionMatch[3];
  ion = ionMatch[2] || ionMatch[4];
  if (ion === '') {
    if (ionPlusSign !== '') { return this.getDangerStr(hrmsData, dataErr, ionMatch[0]); }
  } else if (includes(ionList, ion)) {
    if (this.isStrict && ionPlusSign !== ' + ') {
      return this.getDangerStr(hrmsData, formatErr, ionMatch[0]);
    }
  } else {
    return this.getDangerStr(hrmsData, dataErr, ionMatch[0]);
  }\<close>
\<close>

definition ion_error ::
  "externals \<Rightarrow> bool \<Rightarrow> Languages \<Rightarrow> string \<Rightarrow> ion_match \<Rightarrow> string option" where
  "ion_error ext isStrict currentLanguage hrmsData ionMatch =
     (let ionPlusSign = js_or (im_1 ionMatch) (im_3 ionMatch);
          ion' = js_or (im_2 ionMatch) (im_4 ionMatch)
      in if ion' = Some '''' then
           (if ionPlusSign \<noteq> Some ''''
            then Some (getDangerStr ext hrmsData (pick dataErr currentLanguage)
                         (Some (im_all ionMatch)))
            else None)
         else if ion' \<in> Some ` set ionList then
           (if isStrict \<and> ionPlusSign \<noteq> Some '' + ''
            then Some (getDangerStr ext hrmsData (pick formatErr currentLanguage)
                         (Some (im_all ionMatch)))
            else None)
         else Some (getDangerStr ext hrmsData (pick dataErr currentLanguage)
                      (Some (im_all ionMatch))))"

text \<open>
  \<open>parseHrmsData(hrmsData)\<close>: the source, the counter ion and the data are checked in
  this order, each failure returning the Danger string at once. The loop over
  \<open>[formula, exactMass, foundMass]\<close> returns at the first falsy group.
\<close>

definition parseHrmsData :: "externals \<Rightarrow> bool \<Rightarrow> Languages \<Rightarrow> string \<Rightarrow> parsed_hrms" where
  "parseHrmsData ext isStrict currentLanguage hrmsData =
     (case sourceReg ext hrmsData of
        None \<Rightarrow> HrmsText (getDangerStr ext hrmsData (pick dataErr currentLanguage) None)
      | Some source' \<Rightarrow>
          if \<not> list_ex (\<lambda>availableSource. includes_str source' availableSource) sourceList
          then HrmsText (getDangerStr ext hrmsData (pick dataErr currentLanguage) (Some source'))
          else
            (case ionReg ext hrmsData of
               None \<Rightarrow> HrmsText (getDangerStr ext hrmsData (pick dataErr currentLanguage) None)
             | Some ionMatch \<Rightarrow>
                 (case ion_error ext isStrict currentLanguage hrmsData ionMatch of
                    Some dangerStr \<Rightarrow> HrmsText dangerStr
                  | None \<Rightarrow>
                      let ion' = String_of (js_or (im_2 ionMatch) (im_4 ionMatch))
                      in case dataReg ext hrmsData of
                           None \<Rightarrow>
                             HrmsText (getDangerStr ext hrmsData
                                         (pick dataErr currentLanguage) None)
                         | Some dataMatch \<Rightarrow>
                             (case find js_not [dm_formula dataMatch, dm_exact dataMatch,
                                                 dm_found dataMatch] of
                                Some v \<Rightarrow>
                                  HrmsText (getDangerStr ext hrmsData
                                              (pick dataErr currentLanguage)
                                              (Some (String_of v)))
                              | None \<Rightarrow>
                                  let formula' = String_of (dm_formula dataMatch);
                                      exactMass' = String_of (dm_exact dataMatch);
                                      foundMass' = String_of (dm_found dataMatch)
                                  in if \<not> Formula_isValid ext formula' then
                                       HrmsText (getDangerStr ext hrmsData
                                                   (pick dataErr currentLanguage)
                                                   (Some formula'))
                                     else
                                       Hrms \<lparr>data = hrmsData,
                                             source = source',
                                             ion = ion',
                                             formula = formula',
                                             exactMass = exactMass',
                                             foundMass = foundMass',
                                             calcdMass =
                                               round_lodash
                                                 (round_lodash
                                                    (js_add (Formula_getExactMass ext formula')
                                                            (getIonMass ion'))
                                                    5)
                                                 4\<rparr>))))"

text \<open>
  \<open>getHrmsDataArray()\<close>: \<open>null\<close> for the empty input; else one element per line, \<open>null\<close>
  for a line that \<open>hrmsReg\<close> does not match. The Danger string such a line is given in
  \<open>errMsg\<close> is a local variable that \<open>return null\<close> drops. In strict mode \<open>errMsg\<close> of a
  matched line holds a format error for what follows the yield or the weight.
\<close>

definition no_amount :: amount_match where
  "no_amount = \<lparr>am_value = None, am_rest = None\<rparr>"

definition getHrmsDataLine ::
  "externals \<Rightarrow> bool \<Rightarrow> Languages \<Rightarrow> string \<Rightarrow> YieldWeightHrms option" where
  "getHrmsDataLine ext isStrict currentLanguage dat =
     (let yieldMatch = (case yieldReg ext dat of None \<Rightarrow> no_amount | Some m \<Rightarrow> m);
          weightMatch = (case weightReg ext dat of None \<Rightarrow> no_amount | Some m \<Rightarrow> m)
      in case hrmsReg ext dat of
           None \<Rightarrow> None
         | Some hrms' \<Rightarrow>
             let e1 = (if isStrict \<and> am_rest yieldMatch \<noteq> None
                          \<and> am_rest yieldMatch \<noteq> Some ''''
                       then getDangerStr ext dat (pick formatErr currentLanguage)
                              (am_rest yieldMatch)
                       else '''');
                 e2 = (if isStrict \<and> am_rest weightMatch \<noteq> None
                          \<and> am_rest weightMatch \<noteq> Some '' ''
                       then getDangerStr ext dat (pick formatErr currentLanguage)
                              (am_rest weightMatch)
                       else e1)
             in Some \<lparr>ywh_hrms = hrms',
                       ywh_errMsg = e2,
                       ywh_yield = Number_of (am_value yieldMatch),
                       ywh_weight = Number_of (am_value weightMatch)\<rparr>)"

definition getHrmsDataArray ::
  "externals \<Rightarrow> bool \<Rightarrow> Languages \<Rightarrow> string \<Rightarrow> YieldWeightHrms option list option" where
  "getHrmsDataArray ext isStrict currentLanguage inputtedData =
     (let compoundDataArray = split_char (CHR 0x0A) inputtedData
      in if compoundDataArray = [''''] then None
         else Some (map (getHrmsDataLine ext isStrict currentLanguage) compoundDataArray))"

text \<open>
  \<open>renderStrArrays\<close> maps the callback \<open>renderStr\<close> below over the records. The callback
  reads \<open>fractionE.length\<close> and \<open>fractionF.length\<close> in strict mode, which throws a
  \<open>TypeError\<close> when the mass has no decimal point (the fraction is \<open>undefined\<close>). In
  lenient mode it assigns to \<open>hrms.exactMass\<close>, so it returns the record as well.
\<close>

datatype js_error = TypeError

definition requiredDecimal :: nat where
  "requiredDecimal = 4"

definition maxFoundError :: number where
  "maxFoundError = Num (3 / 1000)"

definition errorEdge :: number where
  "errorEdge = Num (1 / 10000)"

definition renderChecked ::
  "externals \<Rightarrow> Languages \<Rightarrow> bool \<Rightarrow> HrmsData \<Rightarrow> string" where
  "renderChecked ext currentLanguage willHighlightData h =
     (if js_gt (round_lodash
                  (Math_abs (js_sub (Number_of_string (exactMass h)) (calcdMass h))) 4)
               errorEdge
      then dangerOnCondition ext willHighlightData (data h)
             (pick calcErr currentLanguage @ toFixed (calcdMass h) 4)
             (Some (exactMass h))
      else
        let mergedData = replace_str (data h) (formula h) (Formula_toString ext (formula h));
            formattedData =
              replace_str (data h) (formula h) (Formula_toFormattedString ext (formula h))
        in if willHighlightData
           then ''<b>'' @ highlightData ext formattedData Success None @ ''</b>''
           else mergedData)"

definition renderStr ::
  "externals \<Rightarrow> bool \<Rightarrow> Languages \<Rightarrow> bool \<Rightarrow> ParsedData \<Rightarrow> js_error + string \<times> ParsedData" where
  "renderStr ext isStrict currentLanguage willHighlightData hrmsRenderObj =
     (case pd_hrms hrmsRenderObj of
        HrmsText s \<Rightarrow>
          Inr (if willHighlightData then ''<strong>'' @ s @ ''</strong>'' else s, hrmsRenderObj)
      | Hrms h \<Rightarrow>
          let fractionE = at_index (split_char (CHR ''.'') (exactMass h)) 1;
              fractionF = at_index (split_char (CHR ''.'') (foundMass h)) 1
          in if isStrict then
               (case fractionE of
                  None \<Rightarrow> Inl TypeError
                | Some fe \<Rightarrow>
                    if length fe \<noteq> requiredDecimal then
                      Inr (dangerOnCondition ext willHighlightData (data h)
                             (pick decimalErr currentLanguage) (Some (exactMass h)),
                           hrmsRenderObj)
                    else
                      (case fractionF of
                         None \<Rightarrow> Inl TypeError
                       | Some ff \<Rightarrow>
                           if length ff \<noteq> requiredDecimal then
                             Inr (dangerOnCondition ext willHighlightData (data h)
                                    (pick decimalErr currentLanguage) (Some (foundMass h)),
                                  hrmsRenderObj)
                           else if js_gt (Math_abs (js_sub (Number_of_string (foundMass h))
                                                           (Number_of_string (exactMass h))))
                                         maxFoundError then
                             Inr (dangerOnCondition ext willHighlightData (data h)
                                    (pick foundErr currentLanguage) (Some (foundMass h)),
                                  hrmsRenderObj)
                           else
                             Inr (renderChecked ext currentLanguage willHighlightData h,
                                  hrmsRenderObj)))
             else
               let h' = h\<lparr>exactMass := toFixed (Number_of_string (exactMass h)) 4\<rparr>
               in Inr (renderChecked ext currentLanguage willHighlightData h',
                       hrmsRenderObj\<lparr>pd_hrms := Hrms h'\<rparr>))"

fun renderStrArrays ::
  "externals \<Rightarrow> bool \<Rightarrow> Languages \<Rightarrow> bool \<Rightarrow> ParsedData list
     \<Rightarrow> js_error + string list \<times> ParsedData list" where
  "renderStrArrays ext isStrict currentLanguage willHighlightData [] = Inr ([], [])"
| "renderStrArrays ext isStrict currentLanguage willHighlightData (obj # objs) =
     (case renderStr ext isStrict currentLanguage willHighlightData obj of
        Inl e \<Rightarrow> Inl e
      | Inr (s, obj') \<Rightarrow>
          (case renderStrArrays ext isStrict currentLanguage willHighlightData objs of
             Inl e \<Rightarrow> Inl e
           | Inr (ss, objs') \<Rightarrow> Inr (s # ss, obj' # objs')))"

text \<open>
  \<open>render\<close>: \<open>null\<close> without a record; else the plain output, rendered with
  \<open>willHighlightData\<close> off, and the rich output, rendered with it on from the records as
  the first rendering left them.
\<close>

definition render ::
  "externals \<Rightarrow> bool \<Rightarrow> Languages \<Rightarrow> YieldWeightHrms list \<Rightarrow> ParsedData list
     \<Rightarrow> js_error + ComponentData option" where
  "render ext isStrict currentLanguage hrmsDataArr hrmsRenderObjs =
     (let input' = map ywh_hrms hrmsDataArr
      in if length input' = 0 then Inr None
         else
           (case renderStrArrays ext isStrict currentLanguage False hrmsRenderObjs of
              Inl e \<Rightarrow> Inl e
            | Inr (outputPlain', objs') \<Rightarrow>
                (case renderStrArrays ext isStrict currentLanguage True objs' of
                   Inl e \<Rightarrow> Inl e
                 | Inr (outputRich', objs'') \<Rightarrow>
                     Inr (Some \<lparr>input = input',
                                 outputPlain = outputPlain',
                                 outputRich = outputRich'\<rparr>))))"

text \<open>
  \<open>handle()\<close>: \<open>reset\<close> reads the input text and the strict-mode check box from the page;
  they are parameters here. \<open>compact\<close> removes the \<open>null\<close> elements.
\<close>

definition compact_values :: "'a option list \<Rightarrow> 'a list" where
  "compact_values xs = List.map_filter (\<lambda>x. x) xs"

definition handle ::
  "externals \<Rightarrow> bool \<Rightarrow> Languages \<Rightarrow> string \<Rightarrow> js_error + ComponentData option" where
  "handle ext isStrict currentLanguage inputtedData =
     (case getHrmsDataArray ext isStrict currentLanguage inputtedData of
        None \<Rightarrow> Inr None
      | Some hrmsDataArr \<Rightarrow>
          let validHrmsData = compact_values hrmsDataArr;
              hrmsRenderObj =
                map (\<lambda>d. \<lparr>pd_yield = ywh_yield d,
                           pd_weight = ywh_weight d,
                           pd_hrms = parseHrmsData ext isStrict currentLanguage (ywh_hrms d)\<rparr>)
                    validHrmsData
          in render ext isStrict currentLanguage validHrmsData hrmsRenderObj)"

section \<open>A sample of the imported parts\<close>

text \<open>
  Modelled from the spec: \<open>utils/nmr\<close>, \<open>utils/regex\<close>, \<open>utils/utils\<close> and
  \<open>utils/formula\<close> are not among the sources, and the general theorems below hold for
  any value of them. The closed examples need one value; \<open>sample_ext\<close> is that value.
  Its multiplicity tables are the specification's (section 4.3): the alphabet \<open>s\<close>, \<open>d\<close>,
  \<open>t\<close>, \<open>q\<close>, \<open>m\<close>, \<open>dd\<close>, \<open>ddd\<close>; \<open>m\<close> the multiplicity that needs a shift range; \<open>s\<close> the
  one that carries no coupling constant; the expected counts \<open>d\<close>, \<open>t\<close>, \<open>q\<close> 1, \<open>dd\<close> 2,
  \<open>ddd\<close> 3, these five being the multiplicities that need coupling constants. Its
  regular expressions are tables: they answer on the sample strings listed here, with
  the groups a reader finds in them, and match nothing else. \<open>highlightData\<close> puts the
  classification and the message in a bracketed tag before the text, \<open>escapeSpace\<close> and
  the two formula renderings return their argument, and the exact mass of the one sample
  formula \<open>C10H13N2O\<close> is 177.102788.
\<close>

definition sample_JCount :: "string \<Rightarrow> nat option" where
  "sample_JCount = map_of [(''d'', 1), (''t'', 1), (''q'', 1), (''dd'', 2), (''ddd'', 3)]"

definition sample_with_J :: "(string \<times> coupling_match) list" where
  "sample_with_J =
     [(''7.15 (t, J = 11.2, 7.5 Hz, 1H'',
       \<lparr>cm_shift = ''7.15'', cm_type = ''t'', cm_J1 = Some ''11.2'', cm_J2 = Some ''7.5'',
        cm_J3 = None, cm_hydrogen = ''1''\<rparr>),
      (''7.26 (d, J = 7.7 Hz, 1H'',
       \<lparr>cm_shift = ''7.26'', cm_type = ''d'', cm_J1 = Some ''7.7'', cm_J2 = None,
        cm_J3 = None, cm_hydrogen = ''1''\<rparr>),
      (''7.26 (d, J = 0.1 Hz, 1H'',
       \<lparr>cm_shift = ''7.26'', cm_type = ''d'', cm_J1 = Some ''0.1'', cm_J2 = None,
        cm_J3 = None, cm_hydrogen = ''1''\<rparr>)]"

definition sample_without_J :: "(string \<times> noncoupling_match) list" where
  "sample_without_J =
     [(''7.10-6.68 (m, 1H'',
       \<lparr>nm_all = ''7.10-6.68 (m, 1H'', nm_shift = ''7.10-6.68'', nm_type = ''m'',
        nm_hydrogen = ''1''\<rparr>),
      (''6.68-7.10 (m, 1H'',
       \<lparr>nm_all = ''6.68-7.10 (m, 1H'', nm_shift = ''6.68-7.10'', nm_type = ''m'',
        nm_hydrogen = ''1''\<rparr>),
      (''7.10-7.10 (m, 1H'',
       \<lparr>nm_all = ''7.10-7.10 (m, 1H'', nm_shift = ''7.10-7.10'', nm_type = ''m'',
        nm_hydrogen = ''1''\<rparr>)]"

definition sample_line :: string where
  "sample_line = ''HRMS (ESI): m/z [M + H]+ calcd for C10H13N2O 177.1022; found 177.1020''"

definition sample_highlightData :: "string \<Rightarrow> HighlightType \<Rightarrow> string option \<Rightarrow> string" where
  "sample_highlightData s t msg =
     ''['' @ (case t of Danger \<Rightarrow> ''Danger'' | Warning \<Rightarrow> ''Warning'' | Success \<Rightarrow> ''Success'')
       @ (case msg of None \<Rightarrow> '''' | Some m \<Rightarrow> '': '' @ m) @ '']'' @ s"

definition sample_ext :: externals where
  "sample_ext =
     \<lparr>isPeak = (\<lambda>t. t \<in> set [''s'', ''d'', ''t'', ''q'', ''m'', ''dd'', ''ddd'']),
      isSinglePeak = (\<lambda>t. t = ''s''),
      isMultiplePeak = (\<lambda>t. t = ''m''),
      isMultiplePeakWithJ = (\<lambda>t isGeneral. t \<in> set [''d'', ''t'', ''q'', ''dd'', ''ddd'']),
      JCount = sample_JCount,
      h1PeakWithJs = (\<lambda>isStrict. map_of sample_with_J),
      h1PeakWithoutJs = (\<lambda>isStrict. map_of sample_without_J),
      highlightData = sample_highlightData,
      escapeSpace = (\<lambda>s. s),
      yieldReg = (\<lambda>s. None),
      weightReg = (\<lambda>s. None),
      hrmsReg = (\<lambda>s. if s = sample_line then Some s else None),
      sourceReg = (\<lambda>s. if s = sample_line then Some ''ESI'' else None),
      ionReg = (\<lambda>s. if s = sample_line
                     then Some \<lparr>im_all = ''[M + H]+'', im_1 = Some '' + '', im_2 = Some ''H'',
                                 im_3 = None, im_4 = None\<rparr>
                     else None),
      dataReg = (\<lambda>s. if s = sample_line
                      then Some \<lparr>dm_formula = Some ''C10H13N2O'', dm_exact = Some ''177.1022'',
                                  dm_found = Some ''177.1020''\<rparr>
                      else None),
      Formula_isValid = (\<lambda>f. f = ''C10H13N2O''),
      Formula_getExactMass = (\<lambda>f. if f = ''C10H13N2O'' then Num (177102788 / 1000000) else NaN),
      Formula_toString = (\<lambda>f. f),
      Formula_toFormattedString = (\<lambda>f. f)\<rparr>"

text \<open>
  A record as \<open>parseHrmsData\<close> builds it for the sample formula with the counter ion H
  (calculated mass 177.1022), with the exact and the found mass as the user wrote them.
\<close>

definition sample_record :: "string \<Rightarrow> string \<Rightarrow> ParsedData" where
  "sample_record exact found =
     \<lparr>pd_yield = NaN,
      pd_weight = NaN,
      pd_hrms = Hrms \<lparr>data = ''HRMS (ESI): m/z [M + H]+ calcd for C10H13N2O '' @ exact
                             @ ''; found '' @ found,
                      source = ''ESI'',
                      ion = ''H'',
                      formula = ''C10H13N2O'',
                      exactMass = exact,
                      foundMass = found,
                      calcdMass = Num (1771022 / 10000)\<rparr>\<rparr>"

text \<open>
  The entry \<open>parsePeakData\<close> returns for a doublet at 7.26 with one coupling constant
  \<open>J\<close> (the sample tokens \<open>7.26 (d, J = 7.7 Hz, 1H\<close> and \<open>7.26 (d, J = 0.1 Hz, 1H\<close>).
\<close>

definition sample_doublet :: "number \<Rightarrow> H1Data" where
  "sample_doublet J =
     \<lparr>peak = Shift ''7.26'',
      peakType = ''d'',
      Js = Some [J],
      hydrogenCount = Num 1,
      danger = None,
      peakTypeError = Some False,
      warning = None,
      errMsg = Some ''''\<rparr>"

section \<open>The specification's own notions\<close>


text \<open>
  Two of the branches of \<open>fixPeakData\<close>, named for the statement of its idempotence: the
  last branch, which turns a multiplicity that is neither the multiplet, nor single, nor
  one with coupling constants into \<open>m\<close>; and the branch that rounds the coupling constants.
  Both are the conditions of the source's \<open>if\<close> cascade that lead there.
\<close>

definition coerces_to_multiplet :: "externals \<Rightarrow> bool \<Rightarrow> H1Data \<Rightarrow> bool" where
  "coerces_to_multiplet ext generalChecked d \<longleftrightarrow>
     isPeak ext (peakType d) \<and> \<not> isMultiplePeak ext (peakType d)
     \<and> \<not> isSinglePeak ext (peakType d)
     \<and> \<not> isMultiplePeakWithJ ext (peakType d) (\<not> generalChecked)"





text \<open>The lines of the input that \<open>hrmsReg\<close> matches, in their order.\<close>

definition matched_lines :: "externals \<Rightarrow> string \<Rightarrow> string list" where
  "matched_lines ext inputtedData =
     filter (\<lambda>line. hrmsReg ext line \<noteq> None) (split_char (CHR 0x0A) inputtedData)"

section \<open>binary64\<close>

text \<open>
  A JavaScript number is an IEEE-754 binary64 value, and every arithmetic operation
  rounds its exact result to the nearest such value, a tie going to the even significand.
  \<open>binary64\<close> is that rounding on the exact value: 53 significant bits for the normal
  range (exponents -1022 to 1023), multiples of \<open>2^-1074\<close> below it, an infinity from
  \<open>2^1024\<close> on. With it, \<open>isJValid_binary64\<close> is \<open>isJValid\<close> with the product rounded; the
  remainder of two binary64 values is a binary64 value and is not rounded.
\<close>

definition round_half_even :: "rat \<Rightarrow> int" where
  "round_half_even x =
     (let f = \<lfloor>x\<rfloor>; d = x - of_int f
      in if d < 1 / 2 then f else if 1 / 2 < d then f + 1 else if even f then f else f + 1)"

definition binary64_exponent :: "rat \<Rightarrow> int option" where
  "binary64_exponent x =
     find (\<lambda>e. 2 powi e \<le> \<bar>x\<bar> \<and> \<bar>x\<bar> < 2 powi (e + 1)) [- 1022..1023]"

definition binary64_magnitude :: "rat \<Rightarrow> rat" where
  "binary64_magnitude x =
     (let u = (case binary64_exponent x of
                 None \<Rightarrow> 2 powi (- 1074)
               | Some e \<Rightarrow> 2 powi (e - 52))
      in of_int (round_half_even (\<bar>x\<bar> / u)) * u)"

fun binary64 :: "number \<Rightarrow> number" where
  "binary64 (Num x) =
     (if 2 powi 1024 \<le> binary64_magnitude x \<or> 2 powi 1024 \<le> \<bar>x\<bar>
      then signed_inf (js_sign (Num x))
      else Num (sgn x * binary64_magnitude x))"
| "binary64 x = x"

definition isJValid_binary64 :: "number option \<Rightarrow> number \<Rightarrow> bool" where
  "isJValid_binary64 J freq =
     (case J of
        None \<Rightarrow> False
      | Some j \<Rightarrow>
          if \<not> truthy j then False
          else js_rem (binary64 (js_mul MAGNIFICATION j)) freq = Num 0)"

section \<open>Properties of the coupling-constant arithmetic\<close>

lemma floor_rat_numeral_div:
  "\<lfloor>(numeral a :: rat) / numeral b\<rfloor> = numeral a div numeral b"
  using floor_divide_of_int_eq [of "numeral a" "numeral b", where ?'a = rat] by simp


lemma roundJ_Num:
  assumes "f \<noteq> 0"
  shows "roundJ (Num J) (Num f) = Num (of_int \<lfloor>1000 * J / f + 1 / 2\<rfloor> * f / 1000)"
  using assms by (simp add: roundJ_def MAGNIFICATION_def)



section \<open>Evaluation\<close>

text \<open>The equations that evaluate the JavaScript helpers and the sample on concrete inputs.\<close>

lemma replicate_numeral: "replicate (numeral k) x = x # replicate (pred_numeral k) x"
  by (simp add: numeral_eq_Suc)

lemma floor_rat_one_div: "\<lfloor>(1 :: rat) / numeral b\<rfloor> = 1 div numeral b"
  using floor_divide_of_int_eq [of 1 "numeral b", where ?'a = rat] by simp

lemma floor_rat_neg_div: "\<lfloor>- ((numeral a :: rat) / numeral b)\<rfloor> = - numeral a div numeral b"
  using floor_divide_of_int_eq [of "- numeral a" "numeral b", where ?'a = rat] by simp

lemmas js_eval = floor_rat_one_div floor_rat_neg_div starts_with_def replace_str_def substr_last_def at_index_def is_digit_def
  digit_val_def nat_of_digits_def is_space_def trim_def exponent_part_def unsigned_decimal_def
  unsigned_literal_def Number_of_string_def Number_of_def fixed_digits_def compact_numbers_def
  floor_rat_numeral_div replicate_numeral Let_def

lemmas splitReg_eval = splitReg_at_def dash_length_def en_dash_def minus_sign_def
  validEnding_def validHyphen_def

lemmas sample_eval = sample_ext_def sample_JCount_def sample_with_J_def sample_without_J_def
  sample_highlightData_def sample_line_def sample_record_def sample_doublet_def

section \<open>Properties of \<open>parsePeakData\<close>\<close>

lemma parsePeakData_range_entry:
  assumes "parsePeakData ext isStrict lang tok = Entry e"
    and "peak e = ShiftRange [lo, hi]"
  shows "danger e = Some (js_lt (Number_of_string lo) (Number_of_string hi))
       \<and> errMsg e = Some (if js_lt (Number_of_string lo) (Number_of_string hi)
                          then pick (tooltipErrors ! 2) lang else '''')
       \<and> Js e = None"
  using assms
  by (auto simp: parsePeakData_def Let_def at_index_def Number_of_def
      split: option.splits if_splits)

text \<open>
  Claim C7, as the code has it. The claim flags a range whose first bound is not less
  than its second. The code flags the opposite order: \<open>7.10-6.68\<close>, first bound not less
  than the second, is returned with \<open>danger\<close> false and an empty message.
\<close>

theorem parsePeakData_descending_no_danger:
  "\<not> js_lt (Number_of_string ''7.10'') (Number_of_string ''6.68'')
   \<and> parsePeakData sample_ext False English ''7.10-6.68 (m, 1H''
     = Entry \<lparr>peak = ShiftRange [''7.10'', ''6.68''],
              peakType = ''m'',
              Js = None,
              hydrogenCount = Num 1,
              danger = Some False,
              peakTypeError = None,
              warning = None,
              errMsg = Some ''''\<rparr>"
  by (simp add: parsePeakData_def sample_eval js_eval splitReg_eval tooltipErrors_def)

text \<open>
  Claim C7, amended: for every peak token parsed without coupling constants whose
  chemical shift is a two-value range, the entry is flagged Danger with the
  low-field-to-high-field message exactly when the first bound is numerically less than
  the second (\<open>Number(first) < Number(second)\<close>); otherwise \<open>danger\<close> is false and the
  message is empty.
\<close>

theorem parsePeakData_range_order:
  assumes "parsePeakData ext isStrict lang tok = Entry e"
    and "peak e = ShiftRange [lo, hi]"
  shows "Js e = None
       \<and> danger e = Some (js_lt (Number_of_string lo) (Number_of_string hi))
       \<and> errMsg e = Some (if js_lt (Number_of_string lo) (Number_of_string hi)
                          then pick (tooltipErrors ! 2) lang else '''')"
  using parsePeakData_range_entry [OF assms] by simp

theorem parsePeakData_range_order_witness:
  "parsePeakData sample_ext False English ''6.68-7.10 (m, 1H''
     = Entry \<lparr>peak = ShiftRange [''6.68'', ''7.10''],
              peakType = ''m'',
              Js = None,
              hydrogenCount = Num 1,
              danger = Some True,
              peakTypeError = None,
              warning = None,
              errMsg = Some ''Chemical shift of multiplet should be written from low field to high field.''\<rparr>
   \<and> js_lt (Number_of_string ''6.68'') (Number_of_string ''7.10'')"
proof -
  let ?e = "\<lparr>peak = ShiftRange [''6.68'', ''7.10''],
              peakType = ''m'',
              Js = None,
              hydrogenCount = Num 1,
              danger = Some (js_lt (Number_of_string ''6.68'') (Number_of_string ''7.10'')),
              peakTypeError = None,
              warning = None,
              errMsg = Some (if js_lt (Number_of_string ''6.68'') (Number_of_string ''7.10'')
                             then pick (tooltipErrors ! 2) English else '''')\<rparr>"
  have p: "parsePeakData sample_ext False English ''6.68-7.10 (m, 1H'' = Entry ?e"
    by (simp add: parsePeakData_def sample_eval js_eval splitReg_eval)
  have lt: "js_lt (Number_of_string ''6.68'') (Number_of_string ''7.10'')"
    by (simp add: js_eval)
  from parsePeakData_range_order [OF p, of "''6.68''" "''7.10''"] p lt show ?thesis
    by (simp add: tooltipErrors_def)
qed



text \<open>
  Claim C10: for every peak token parsed without coupling constants whose chemical shift
  is a two-value range with numerically equal bounds, the entry is not flagged: \<open>danger\<close>
  is false and the message is empty.
\<close>

theorem parsePeakData_equal_bounds:
  assumes "parsePeakData ext isStrict lang tok = Entry e"
    and "peak e = ShiftRange [lo, hi]"
    and "Number_of_string lo = Num x"
    and "Number_of_string hi = Num x"
  shows "danger e = Some False \<and> errMsg e = Some ''''"
  using parsePeakData_range_entry [OF assms(1,2)] assms(3,4) by simp

theorem parsePeakData_equal_bounds_witness:
  "parsePeakData sample_ext False English ''7.10-7.10 (m, 1H''
     = Entry \<lparr>peak = ShiftRange [''7.10'', ''7.10''],
              peakType = ''m'',
              Js = None,
              hydrogenCount = Num 1,
              danger = Some False,
              peakTypeError = None,
              warning = None,
              errMsg = Some ''''\<rparr>
   \<and> Number_of_string ''7.10'' = Num (71 / 10)"
proof -
  let ?e = "\<lparr>peak = ShiftRange [''7.10'', ''7.10''],
              peakType = ''m'',
              Js = None,
              hydrogenCount = Num 1,
              danger = Some False,
              peakTypeError = None,
              warning = None,
              errMsg = Some ''''\<rparr>"
  have p: "parsePeakData sample_ext False English ''7.10-7.10 (m, 1H'' = Entry ?e"
    by (simp add: parsePeakData_def sample_eval js_eval splitReg_eval)
  have n: "Number_of_string ''7.10'' = Num (71 / 10)"
    by (simp add: js_eval)
  from parsePeakData_equal_bounds [OF p _ n n] p n show ?thesis by simp
qed

section \<open>Properties of \<open>fixPeakData\<close>\<close>

lemma isJValid_roundJ:
  assumes "f \<noteq> 0" and "roundJ (Num j) (Num f) \<noteq> Num 0"
  shows "isJValid (Some (roundJ (Num j) (Num f))) (Num f)"
proof -
  let ?k = "\<lfloor>1000 * j / f + 1 / 2\<rfloor>"
  have r: "roundJ (Num j) (Num f) = Num (of_int ?k * f / 1000)"
    using assms(1) by (rule roundJ_Num)
  have "trunc (of_int ?k) = ?k" by (simp add: trunc_def)
  then have "js_rem (js_mul MAGNIFICATION (Num (of_int ?k * f / 1000))) (Num f) = Num 0"
    using assms(1) by (simp add: MAGNIFICATION_def)
  then show ?thesis using assms(2) unfolding r by (simp add: isJValid_def)
qed


lemma parsePeakData_sample_doublets:
  "parsePeakData sample_ext False English ''7.26 (d, J = 7.7 Hz, 1H''
     = Entry (sample_doublet (Num (77 / 10)))"
  "parsePeakData sample_ext False English ''7.26 (d, J = 0.1 Hz, 1H''
     = Entry (sample_doublet (Num (1 / 10)))"
  by (simp_all add: parsePeakData_def sample_eval js_eval)




text \<open>
  Why the amended claim leaves the last branch out: when \<open>m\<close> is the multiplet of the
  tables, an entry whose multiplicity the first run coerces to \<open>m\<close> has the placeholder
  \<open>PEAKRANGE\<close>, a string, as its shift; the second run takes the multiplet branch and
  replaces the message by "Multiplet peaks should be reported in interval".
\<close>

lemma fixPeakData_coerced_second_run:
  assumes "coerces_to_multiplet ext g d"
    and "isPeak ext ''m''" and "isMultiplePeak ext ''m''"
  shows "fixPeakData ext g a lang (Entry d) freq
           = Entry (d\<lparr>peak := Shift peakRangePlaceholder, peakType := ''m'', Js := None,
                      danger := Some True,
                      errMsg := Some (peakType d @ replicate 12 (CHR '' '')
                                      @ pick (tooltipErrors ! 10) lang)\<rparr>)
       \<and> fixPeakData ext g a lang (fixPeakData ext g a lang (Entry d) freq) freq
           = Entry (d\<lparr>peak := Shift peakRangePlaceholder, peakType := ''m'', Js := None,
                      danger := Some True,
                      errMsg := Some (pick (tooltipErrors ! 4) lang)\<rparr>)
       \<and> fixPeakData ext g a lang (fixPeakData ext g a lang (Entry d) freq) freq
           \<noteq> fixPeakData ext g a lang (Entry d) freq"
proof -
  let ?r = "d\<lparr>peak := Shift peakRangePlaceholder, peakType := ''m'', Js := None,
              danger := Some True,
              errMsg := Some (peakType d @ replicate 12 (CHR '' '')
                              @ pick (tooltipErrors ! 10) lang)\<rparr>"
  from assms(1) have c: "isPeak ext (peakType d)" "\<not> isMultiplePeak ext (peakType d)"
    "\<not> isSinglePeak ext (peakType d)" "\<not> isMultiplePeakWithJ ext (peakType d) (\<not> g)"
    by (simp_all add: coerces_to_multiplet_def)
  have 1: "fixPeakData ext g a lang (Entry d) freq = Entry ?r"
    using c by (cases "peak d") (simp_all add: fixPeakData_def Let_def)
  have 2: "fixPeakData ext g a lang (Entry ?r) freq
             = Entry (?r\<lparr>errMsg := Some (pick (tooltipErrors ! 4) lang)\<rparr>)"
    using assms(2,3) by (simp add: fixPeakData_def Let_def)
  have "length (peakType d @ replicate 12 (CHR '' '') @ pick (tooltipErrors ! 10) lang)
          \<noteq> length (pick (tooltipErrors ! 4) lang)"
    by (cases lang) (simp_all add: tooltipErrors_def)
  then have 3: "peakType d @ replicate 12 (CHR '' '') @ pick (tooltipErrors ! 10) lang
                  \<noteq> pick (tooltipErrors ! 4) lang"
    by (metis (no_types))
  have "errMsg ?r \<noteq> errMsg (?r\<lparr>errMsg := Some (pick (tooltipErrors ! 4) lang)\<rparr>)"
    using 3 by simp
  then have "?r \<noteq> ?r\<lparr>errMsg := Some (pick (tooltipErrors ! 4) lang)\<rparr>"
    by (metis (no_types))
  with 1 2 show ?thesis by simp
qed

section \<open>Properties of the HRMS component\<close>





section \<open>Properties of the rendering of HRMS records\<close>









section \<open>Properties of \<open>handle\<close> of the HRMS component\<close>

lemma split_char_not_Nil: "split_char c s \<noteq> []"
  by (induction s) (auto split: list.splits)

lemma split_char_single_empty: "split_char c s = [''''] \<longleftrightarrow> s = ''''"
proof (cases s)
  case Nil
  then show ?thesis by simp
next
  case (Cons x xs)
  then show ?thesis
    using split_char_not_Nil [of c xs] by (auto split: list.splits)
qed

lemma getHrmsDataLine_None: "getHrmsDataLine ext s l line = None \<longleftrightarrow> hrmsReg ext line = None"
  by (simp add: getHrmsDataLine_def Let_def split: option.splits)

lemma getHrmsDataLine_hrms:
  "map_option ywh_hrms (getHrmsDataLine ext s l line) = hrmsReg ext line"
  by (simp add: getHrmsDataLine_def Let_def split: option.splits)

lemma compact_lines:
  "compact_values (map (getHrmsDataLine ext s l) ls)
     = map (\<lambda>d. the (getHrmsDataLine ext s l d)) (filter (\<lambda>d. hrmsReg ext d \<noteq> None) ls)"
proof (induction ls)
  case Nil
  then show ?case by (simp add: compact_values_def List.map_filter_simps)
next
  case (Cons d ls)
  then show ?case
    using getHrmsDataLine_None [of ext s l d]
    by (cases "getHrmsDataLine ext s l d") (auto simp: compact_values_def List.map_filter_simps)
qed

lemma compact_lines_hrms:
  "map ywh_hrms (compact_values (map (getHrmsDataLine ext s l) ls)) = List.map_filter (hrmsReg ext) ls"
proof (induction ls)
  case Nil
  then show ?case by (simp add: compact_values_def List.map_filter_simps)
next
  case (Cons d ls)
  then show ?case
    using getHrmsDataLine_hrms [of ext s l d, symmetric]
    by (cases "getHrmsDataLine ext s l d") (simp_all add: compact_values_def List.map_filter_simps)
qed

lemma renderStrArrays_length:
  assumes "renderStrArrays ext s l w objs = Inr (ss, objs')"
  shows "length ss = length objs \<and> length objs' = length objs"
  using assms
proof (induction objs arbitrary: ss objs')
  case Nil
  then show ?case by simp
next
  case (Cons obj objs)
  then show ?case by (auto split: sum.splits prod.splits)
qed

lemma render_Some:
  assumes "render ext s l v objs = Inr (Some cd)"
    and "length objs = length v"
  shows "input cd = map ywh_hrms v \<and> length (outputPlain cd) = length v
       \<and> length (outputRich cd) = length v"
proof -
  from assms(1) obtain p objs1 r objs2 where
    p: "renderStrArrays ext s l False objs = Inr (p, objs1)"
    and r: "renderStrArrays ext s l True objs1 = Inr (r, objs2)"
    and cd: "cd = \<lparr>input = map ywh_hrms v, outputPlain = p, outputRich = r\<rparr>"
    by (auto simp: render_def Let_def split: if_splits sum.splits prod.splits)
  from renderStrArrays_length [OF p] renderStrArrays_length [OF r] assms(2) cd
  show ?thesis by simp
qed

lemma handle_matched_lines:
  assumes "inp \<noteq> ''''"
  shows "handle ext s l inp =
           render ext s l
             (map (\<lambda>d. the (getHrmsDataLine ext s l d)) (matched_lines ext inp))
             (map (\<lambda>d. \<lparr>pd_yield = ywh_yield d, pd_weight = ywh_weight d,
                         pd_hrms = parseHrmsData ext s l (ywh_hrms d)\<rparr>)
                  (map (\<lambda>d. the (getHrmsDataLine ext s l d)) (matched_lines ext inp)))"
  using assms
  by (simp add: handle_def getHrmsDataArray_def Let_def split_char_single_empty compact_lines
      matched_lines_def)

lemma handle_Some:
  assumes "handle ext s l inp = Inr (Some cd)"
  shows "input cd = List.map_filter (hrmsReg ext) (split_char (CHR 0x0A) inp)
       \<and> length (outputPlain cd) = length (input cd)
       \<and> length (outputRich cd) = length (input cd)"
proof -
  let ?v = "compact_values (map (getHrmsDataLine ext s l) (split_char (CHR 0x0A) inp))"
  let ?objs = "map (\<lambda>d. \<lparr>pd_yield = ywh_yield d, pd_weight = ywh_weight d,
                           pd_hrms = parseHrmsData ext s l (ywh_hrms d)\<rparr>) ?v"
  from assms have "render ext s l ?v ?objs = Inr (Some cd)"
    by (auto simp: handle_def getHrmsDataArray_def Let_def split: if_splits)
  from render_Some [OF this]
  have "input cd = map ywh_hrms ?v \<and> length (outputPlain cd) = length (map ywh_hrms ?v)
        \<and> length (outputRich cd) = length (map ywh_hrms ?v)"
    by simp
  then show ?thesis
    by (simp only: compact_lines_hrms)
qed

text \<open>
  Claim C1, as the code has it. The claim says that a line which \<open>hrmsReg\<close> does not
  match is kept as a Danger-annotated record. The code drops it: the input of one
  unmatched line gives \<open>null\<close>, and with a matching line after it the component returns
  the record of the matching line only.
\<close>

theorem handle_unmatched_line_gives_no_record:
  "hrmsReg sample_ext ''not an HRMS line'' = None
   \<and> handle sample_ext False English ''not an HRMS line'' = Inr None
   \<and> handle sample_ext False English (''not an HRMS line'' @ [CHR 0x0A] @ sample_line)
     = Inr (Some \<lparr>input = [sample_line],
                   outputPlain = [sample_line],
                   outputRich = [''<b>[Success]'' @ sample_line @ ''</b>'']\<rparr>)"
  by (simp add: handle_def getHrmsDataArray_def getHrmsDataLine_def compact_values_def
      List.map_filter_simps render_def renderStr_def renderChecked_def parseHrmsData_def
      ion_error_def sourceList_def ionList_def js_or_def js_not_def String_of_def
      getIonMass_def massOfElectron_def no_amount_def
      sample_eval js_eval js_gt_def js_sub_def errorEdge_def)

text \<open>
  Claim C1, amended: for every input line that \<open>hrmsReg\<close> does not match,
  \<open>getHrmsDataArray\<close> yields \<open>null\<close> for that line and \<open>handle\<close> drops it. The component's
  result has one record for each matching line, in order, and none for the others: its
  \<open>input\<close> is the list of the \<open>hrmsReg\<close> matches, and both outputs have that length. Two
  non-empty inputs with the same matching lines give the same result, so an unmatched
  line adds no record and no annotation, neither aborts nor suppresses its sibling
  records, and no HRMS validation is performed on it.
\<close>

theorem handle_drops_unmatched_lines:
  "(hrmsReg ext line = None \<longrightarrow> getHrmsDataLine ext s l line = None)
   \<and> (handle ext s l inp = Inr (Some cd) \<longrightarrow>
        input cd = List.map_filter (hrmsReg ext) (split_char (CHR 0x0A) inp)
        \<and> length (outputPlain cd) = length (input cd)
        \<and> length (outputRich cd) = length (input cd))
   \<and> (inp \<noteq> '''' \<and> inp' \<noteq> '''' \<and> matched_lines ext inp = matched_lines ext inp' \<longrightarrow>
        handle ext s l inp = handle ext s l inp')"
  using handle_Some [of ext s l inp cd] getHrmsDataLine_None [of ext s l line]
  by (simp add: handle_matched_lines)

theorem handle_drops_unmatched_lines_witness:
  "hrmsReg sample_ext ''not an HRMS line'' = None
   \<and> getHrmsDataLine sample_ext False English ''not an HRMS line'' = None
   \<and> handle sample_ext False English (''not an HRMS line'' @ [CHR 0x0A] @ sample_line)
     = Inr (Some \<lparr>input = [sample_line],
                   outputPlain = [sample_line],
                   outputRich = [''<b>[Success]'' @ sample_line @ ''</b>'']\<rparr>)
   \<and> List.map_filter (hrmsReg sample_ext)
        (split_char (CHR 0x0A) (''not an HRMS line'' @ [CHR 0x0A] @ sample_line))
     = [sample_line]
   \<and> matched_lines sample_ext (''not an HRMS line'' @ [CHR 0x0A] @ sample_line)
     = matched_lines sample_ext sample_line
   \<and> handle sample_ext False English (''not an HRMS line'' @ [CHR 0x0A] @ sample_line)
     = handle sample_ext False English sample_line"
proof -
  let ?inp = "''not an HRMS line'' @ [CHR 0x0A] @ sample_line"
  let ?cd = "\<lparr>input = [sample_line],
              outputPlain = [sample_line],
              outputRich = [''<b>[Success]'' @ sample_line @ ''</b>'']\<rparr>"
  have n: "hrmsReg sample_ext ''not an HRMS line'' = None"
    by (simp add: sample_eval)
  have h: "handle sample_ext False English ?inp = Inr (Some ?cd)"
    by (simp add: handle_def getHrmsDataArray_def getHrmsDataLine_def compact_values_def
        List.map_filter_simps render_def renderStr_def renderChecked_def parseHrmsData_def
        ion_error_def sourceList_def ionList_def js_or_def js_not_def String_of_def
        getIonMass_def massOfElectron_def no_amount_def
        sample_eval js_eval js_gt_def js_sub_def errorEdge_def)
  have m: "matched_lines sample_ext ?inp = matched_lines sample_ext sample_line"
    by (simp add: matched_lines_def sample_eval)
  have f: "List.map_filter (hrmsReg sample_ext) (split_char (CHR 0x0A) ?inp) = [sample_line]"
    by (simp add: List.map_filter_simps sample_eval)
  have ne: "?inp \<noteq> '''' \<and> sample_line \<noteq> ''''"
    by (simp add: sample_line_def)
  note t = handle_drops_unmatched_lines
         [of sample_ext "''not an HRMS line''" False English ?inp ?cd sample_line]
  from t n have g: "getHrmsDataLine sample_ext False English ''not an HRMS line'' = None"
    by blast
  from t ne m have e: "handle sample_ext False English ?inp
                       = handle sample_ext False English sample_line"
    by blast
  from n g h f m e show ?thesis by (intro conjI)
qed

section \<open>The coupling constant 7.6 Hz at 400 MHz\<close>

text \<open>The evaluation of \<open>isJValid\<close> at 7.6 and 400 with every intermediate value rounded to binary64.\<close>

lemma binary64_exponent_unique:
  fixes x :: rat
  assumes "2 powi e \<le> \<bar>x\<bar>" "\<bar>x\<bar> < 2 powi (e + 1)"
    and "2 powi e' \<le> \<bar>x\<bar>" "\<bar>x\<bar> < 2 powi (e' + 1)"
  shows "e' = e"
proof (rule ccontr)
  assume "e' \<noteq> e"
  then consider "e' + 1 \<le> e" | "e + 1 \<le> e'" by linarith
  then show False
  proof cases
    case 1
    then have "(2::rat) powi (e' + 1) \<le> 2 powi e"
      by (intro power_int_increasing) simp_all
    with assms show False by linarith
  next
    case 2
    then have "(2::rat) powi (e + 1) \<le> 2 powi e'"
      by (intro power_int_increasing) simp_all
    with assms show False by linarith
  qed
qed

lemma find_unique:
  assumes "x \<in> set xs" and "P x" and "\<And>y. P y \<Longrightarrow> y = x"
  shows "find P xs = Some x"
  using assms(1)
proof (induction xs)
  case Nil
  then show ?case by simp
next
  case (Cons a xs)
  show ?case
  proof (cases "P a")
    case True
    then have "a = x" by (rule assms(3))
    with True show ?thesis by simp
  next
    case False
    with assms(2) have "a \<noteq> x" by blast
    with Cons.prems have "x \<in> set xs" by simp
    with False Cons.IH show ?thesis by simp
  qed
qed

lemma binary64_exponentI:
  assumes "- 1022 \<le> e" and "e \<le> 1023"
    and "2 powi e \<le> \<bar>x\<bar>" and "\<bar>x\<bar> < 2 powi (e + 1)"
  shows "binary64_exponent x = Some e"
  unfolding binary64_exponent_def
proof (rule find_unique)
  show "e \<in> set [- 1022..1023]"
    by (simp only: set_upto atLeastAtMost_iff assms(1,2) simp_thms)
  show "2 powi e \<le> \<bar>x\<bar> \<and> \<bar>x\<bar> < 2 powi (e + 1)" using assms(3,4) by simp
  show "y = e" if "2 powi y \<le> \<bar>x\<bar> \<and> \<bar>x\<bar> < 2 powi (y + 1)" for y
    using that assms(3,4) binary64_exponent_unique [of e x y] by blast
qed

lemma binary64_7_6: "binary64 (Num (76 / 10)) = Num (4278419646001971 / 562949953421312)"
proof -
  have e: "binary64_exponent (76 / 10) = Some 2"
    by (rule binary64_exponentI) (simp_all add: power_int_minus)
  have m: "binary64_magnitude (76 / 10) = 4278419646001971 / 562949953421312"
    by (simp only: binary64_magnitude_def e option.case)
      (simp add: round_half_even_def power_int_minus floor_rat_numeral_div Let_def)
  show ?thesis by (simp only: binary64.simps m) simp
qed

lemma binary64_7600:
  "binary64 (js_mul MAGNIFICATION (Num (4278419646001971 / 562949953421312))) = Num 7600"
proof -
  let ?p = "1000 * (4278419646001971 / 562949953421312) :: rat"
  have e: "binary64_exponent ?p = Some 12"
    by (rule binary64_exponentI) (simp_all add: power_int_minus)
  have m: "binary64_magnitude ?p = 7600"
    by (simp only: binary64_magnitude_def e option.case)
      (simp add: round_half_even_def power_int_minus floor_rat_numeral_div Let_def)
  have "js_mul MAGNIFICATION (Num (4278419646001971 / 562949953421312)) = Num ?p"
    by (simp only: MAGNIFICATION_def js_mul.simps)
  then show ?thesis by (simp only: binary64.simps m) simp
qed

lemma isJValid_binary64_7_6:
  "isJValid_binary64 (Some (binary64 (Num (76 / 10)))) (binary64 (Num 400)) = True"
proof -
  have e: "binary64_exponent 400 = Some 8"
    by (rule binary64_exponentI) (simp_all add: power_int_minus)
  have m: "binary64_magnitude 400 = 400"
    by (simp only: binary64_magnitude_def e option.case)
      (simp add: round_half_even_def power_int_minus floor_rat_numeral_div Let_def)
  have f: "binary64 (Num 400) = Num 400" by (simp only: binary64.simps m) simp
  show ?thesis
    by (simp only: isJValid_binary64_def binary64_7_6 binary64_7600 f option.case)
      (simp add: trunc_def)
qed

text \<open>
  Claim C4, as the code has it. The claim says that \<open>isJValid(7.6, 400)\<close> is false. The
  code returns true there: \<open>1000 * 7.6 = 7600 = 19 * 400\<close>, the remainder is zero. This
  is so for the exact values and for the binary64 values alike: the number nearest to
  7.6 is a little below it, and its product with 1000 rounds to 7600.
\<close>

theorem isJValid_7_6_at_400_not_false:
  "\<not> (isJValid (Some (Num (76 / 10))) (Num 400) = False)
   \<and> \<not> (isJValid_binary64 (Some (binary64 (Num (76 / 10)))) (binary64 (Num 400)) = False)"
  using isJValid_binary64_7_6
  by (simp add: isJValid_def MAGNIFICATION_def trunc_def)

text \<open>
  Claim C4, amended: for frequency 400 MHz and coupling constant J = 7.6 Hz,
  \<open>isJValid(7.6, 400)\<close> returns true.
\<close>

theorem isJValid_7_6_at_400:
  "isJValid (Some (Num (76 / 10))) (Num 400) = True
   \<and> isJValid_binary64 (Some (binary64 (Num (76 / 10)))) (binary64 (Num 400)) = True"
  using isJValid_binary64_7_6
  by (simp add: isJValid_def MAGNIFICATION_def trunc_def)

end
